theory Spec2Isabelle
  imports Complex_Main "HOL-Library.Word"
begin

unbundle bit_operations_syntax

section \<open>Numbers\<close>

text \<open>
  The spring works on JavaScript numbers. \<open>Fin r\<close> is the real number \<open>r\<close>, \<open>PInf\<close> and
  \<open>NInf\<close> are the two infinities. The arithmetic of \<open>Step\<close> and \<open>CanSleep\<close> is exact:
  rounding and overflow of the binary64 format are not modelled there. \<open>NonFinite\<close> is
  \<open>NaN\<close>, and also the quotient of a nonzero number by zero, an infinity whose sign is
  that of the zero, which real numbers do not have. It propagates through arithmetic,
  and every comparison with it is false, as every comparison with \<open>NaN\<close> is. From finite
  fields and a finite \<open>deltaTime\<close> the only division by zero is that of \<open>co2\<close>, and there
  both results of \<open>Step\<close> are \<open>NaN\<close> whatever the sign.
\<close>

datatype number = Fin real | PInf | NInf | NonFinite

fun is_finite :: "number \<Rightarrow> bool" where
  "is_finite (Fin r) = True"
| "is_finite _ = False"

instantiation number :: "{plus, minus, uminus, times, inverse, ord}"
begin

fun plus_number :: "number \<Rightarrow> number \<Rightarrow> number" where
  "plus_number (Fin a) (Fin b) = Fin (a + b)"
| "plus_number (Fin a) PInf = PInf"
| "plus_number (Fin a) NInf = NInf"
| "plus_number PInf (Fin b) = PInf"
| "plus_number NInf (Fin b) = NInf"
| "plus_number PInf PInf = PInf"
| "plus_number NInf NInf = NInf"
| "plus_number _ _ = NonFinite"

fun minus_number :: "number \<Rightarrow> number \<Rightarrow> number" where
  "minus_number (Fin a) (Fin b) = Fin (a - b)"
| "minus_number (Fin a) PInf = NInf"
| "minus_number (Fin a) NInf = PInf"
| "minus_number PInf (Fin b) = PInf"
| "minus_number NInf (Fin b) = NInf"
| "minus_number PInf NInf = PInf"
| "minus_number NInf PInf = NInf"
| "minus_number _ _ = NonFinite"

fun uminus_number :: "number \<Rightarrow> number" where
  "uminus_number (Fin a) = Fin (- a)"
| "uminus_number PInf = NInf"
| "uminus_number NInf = PInf"
| "uminus_number NonFinite = NonFinite"

text \<open>An infinity times zero is \<open>NaN\<close>.\<close>

fun times_number :: "number \<Rightarrow> number \<Rightarrow> number" where
  "times_number (Fin a) (Fin b) = Fin (a * b)"
| "times_number (Fin a) PInf = (if a = 0 then NonFinite else if 0 < a then PInf else NInf)"
| "times_number (Fin a) NInf = (if a = 0 then NonFinite else if 0 < a then NInf else PInf)"
| "times_number PInf (Fin b) = (if b = 0 then NonFinite else if 0 < b then PInf else NInf)"
| "times_number NInf (Fin b) = (if b = 0 then NonFinite else if 0 < b then NInf else PInf)"
| "times_number PInf PInf = PInf"
| "times_number NInf NInf = PInf"
| "times_number PInf NInf = NInf"
| "times_number NInf PInf = NInf"
| "times_number _ _ = NonFinite"

text \<open>
  \<open>x / 0\<close> is an infinity or \<open>NaN\<close> in JavaScript, where HOL's \<open>x / 0\<close> is 0. A finite
  number divided by an infinity is zero, an infinity divided by an infinity is \<open>NaN\<close>.
\<close>

fun divide_number :: "number \<Rightarrow> number \<Rightarrow> number" where
  "divide_number (Fin a) (Fin b) = (if b = 0 then NonFinite else Fin (a / b))"
| "divide_number (Fin a) PInf = Fin 0"
| "divide_number (Fin a) NInf = Fin 0"
| "divide_number PInf (Fin b) = (if b = 0 then NonFinite else if 0 < b then PInf else NInf)"
| "divide_number NInf (Fin b) = (if b = 0 then NonFinite else if 0 < b then NInf else PInf)"
| "divide_number _ _ = NonFinite"

definition inverse_number :: "number \<Rightarrow> number" where
  "inverse_number x = divide (Fin 1) x"

fun less_number :: "number \<Rightarrow> number \<Rightarrow> bool" where
  "less_number (Fin a) (Fin b) = (a < b)"
| "less_number (Fin a) PInf = True"
| "less_number NInf (Fin b) = True"
| "less_number NInf PInf = True"
| "less_number _ _ = False"

fun less_eq_number :: "number \<Rightarrow> number \<Rightarrow> bool" where
  "less_eq_number (Fin a) (Fin b) = (a \<le> b)"
| "less_eq_number (Fin a) PInf = True"
| "less_eq_number NInf (Fin b) = True"
| "less_eq_number NInf PInf = True"
| "less_eq_number PInf PInf = True"
| "less_eq_number NInf NInf = True"
| "less_eq_number _ _ = False"

instance ..

end

text \<open>\<open>x === y\<close> on numbers: false as soon as one side is \<open>NaN\<close>.\<close>

fun strict_eq :: "number \<Rightarrow> number \<Rightarrow> bool" where
  "strict_eq (Fin a) (Fin b) = (a = b)"
| "strict_eq PInf PInf = True"
| "strict_eq NInf NInf = True"
| "strict_eq _ _ = False"

text \<open>\<open>x ** n\<close> for a literal exponent \<open>n\<close>; \<open>x ** 0\<close> is 1 for every \<open>x\<close>, \<open>NaN\<close> included.\<close>

fun js_pow :: "number \<Rightarrow> nat \<Rightarrow> number" where
  "js_pow (Fin a) n = Fin (a ^ n)"
| "js_pow PInf n = (if n = 0 then Fin 1 else PInf)"
| "js_pow NInf n = (if n = 0 then Fin 1 else if even n then PInf else NInf)"
| "js_pow NonFinite n = (if n = 0 then Fin 1 else NonFinite)"

fun Math_exp :: "number \<Rightarrow> number" where
  "Math_exp (Fin a) = Fin (exp a)"
| "Math_exp PInf = PInf"
| "Math_exp NInf = Fin 0"
| "Math_exp NonFinite = NonFinite"

fun Math_sin :: "number \<Rightarrow> number" where
  "Math_sin (Fin a) = Fin (sin a)"
| "Math_sin _ = NonFinite"

fun Math_cos :: "number \<Rightarrow> number" where
  "Math_cos (Fin a) = Fin (cos a)"
| "Math_cos _ = NonFinite"

text \<open>\<open>Math.sqrt\<close> of a negative number is \<open>NaN\<close>, where HOL's \<open>sqrt\<close> is odd.\<close>

fun Math_sqrt :: "number \<Rightarrow> number" where
  "Math_sqrt (Fin a) = (if a < 0 then NonFinite else Fin (sqrt a))"
| "Math_sqrt PInf = PInf"
| "Math_sqrt _ = NonFinite"

text \<open>
  \<open>x ^ y\<close> is JavaScript's bitwise exclusive or: both operands go through \<open>ToInt32\<close>
  (truncate towards zero, reduce modulo \<open>2 ^ 32\<close>, read as a signed 32-bit integer;
  \<open>NaN\<close> and the infinities give 0) and the result is the number of the signed word.
\<close>

fun ToInt32 :: "number \<Rightarrow> 32 word" where
  "ToInt32 (Fin a) = word_of_int (if a < 0 then \<lceil>a\<rceil> else \<lfloor>a\<rfloor>)"
| "ToInt32 _ = 0"

definition bit_xor :: "number \<Rightarrow> number \<Rightarrow> number" where
  "bit_xor x y = Fin (real_of_int (sint (ToInt32 x XOR ToInt32 y)))"

text \<open>
  The convergence check compares a product with 0, and there the rounding of the
  binary64 product decides the outcome: a product too small to be represented becomes
  a zero, which is not below 0. Binary64 rounds to the nearest representable number
  and, half way between two, to the one with the even significand.
\<close>

definition round_half_even :: "real \<Rightarrow> int" where
  "round_half_even x =
     (let n = \<lfloor>x\<rfloor>; r = x - of_int n
      in if r < 1 / 2 then n else if 1 / 2 < r then n + 1 else if even n then n else n + 1)"

text \<open>
  \<open>times_binary64\<close> is the product as binary64 computes it, as far as its comparison
  with 0 goes. Below the smallest normal number \<open>2 ^ -1022\<close> the representable numbers
  are the multiples of \<open>2 ^ -1074\<close>, and the product is rounded to one of them. From
  \<open>2 ^ 1024 - 2 ^ 970\<close> on, half way between the largest finite number and \<open>2 ^ 1024\<close>,
  the product is an infinity. Between the two the rounding to 53 significant bits is
  left out: it changes neither the sign of the product nor whether it is zero.
\<close>

fun times_binary64 :: "number \<Rightarrow> number \<Rightarrow> number" where
  "times_binary64 (Fin a) (Fin b) =
     (let r = a * b
      in if \<bar>r\<bar> < 1 / 2 ^ 1022 then Fin (of_int (round_half_even (r * 2 ^ 1074)) / 2 ^ 1074)
         else if 2 ^ 1024 - 2 ^ 970 \<le> \<bar>r\<bar> then (if r < 0 then NInf else PInf)
         else Fin r)"
| "times_binary64 x y = x * y"

text \<open>
  When that product is below 0, spelled out on the operands. Two finite numbers: their
  real product is below \<open>- 2 ^ -1075\<close>, half the smallest positive binary64 number
  (a negative product of magnitude at most \<open>2 ^ -1075\<close> rounds to zero). An infinity and
  another number: the other is below 0 for \<open>+\<infinity>\<close>, above 0 for \<open>-\<infinity>\<close>, or the opposite
  infinity. Never when an operand is \<open>NaN\<close>.
\<close>

fun product_negative :: "number \<Rightarrow> number \<Rightarrow> bool" where
  "product_negative (Fin a) (Fin b) = (a * b < - (1 / 2 ^ 1075))"
| "product_negative (Fin a) PInf = (a < 0)"
| "product_negative (Fin a) NInf = (0 < a)"
| "product_negative PInf (Fin b) = (b < 0)"
| "product_negative NInf (Fin b) = (0 < b)"
| "product_negative PInf NInf = True"
| "product_negative NInf PInf = True"
| "product_negative _ _ = False"

section \<open>The module's constants\<close>

definition tau :: number where
  "tau = Fin pi * Fin 2"

definition SLEEP_OFFSET_SQ_LIMIT :: number where
  "SLEEP_OFFSET_SQ_LIMIT = bit_xor (Fin 1 / Fin 3840) (Fin 2)"

definition SLEEP_VELOCITY_SQ_LIMIT :: number where
  "SLEEP_VELOCITY_SQ_LIMIT = bit_xor (Fin (1 / 100)) (Fin 2)"

definition EPS :: number where
  "EPS = Fin (1 / 100000)"

section \<open>The spring\<close>

record spring =
  DampingRatio :: number
  Frequency :: number
  Goal :: number
  Position :: number
  Velocity :: number

datatype error = Error string

definition not_converge :: error where
  "not_converge = Error ''Spring will not converge''"

text \<open>The constructor; the goal is optional and defaults to the start position.\<close>

definition new_Spring :: "number \<Rightarrow> number \<Rightarrow> number \<Rightarrow> number option \<Rightarrow> error + spring" where
  "new_Spring startPosition frequency dampingRatio goal =
     (if times_binary64 frequency dampingRatio < Fin 0 then Inl not_converge
      else Inr \<lparr>DampingRatio = dampingRatio,
                Frequency = frequency,
                Goal = (case goal of None \<Rightarrow> startPosition | Some g \<Rightarrow> g),
                Position = startPosition,
                Velocity = Fin 0\<rparr>)"

text \<open>
  The two stabilised ratios of the underdamped branch of \<open>Step\<close>: the value assigned to
  \<open>z\<close> from \<open>frequencyStep\<close>, \<open>c\<close> and \<open>j\<close>, and the value assigned to \<open>y\<close> from
  \<open>deltaTime\<close>, \<open>cFrequency\<close> and \<open>j\<close>.
\<close>

definition Step_z :: "number \<Rightarrow> number \<Rightarrow> number \<Rightarrow> number" where
  "Step_z frequencyStep c j =
     (if c > EPS then j / c
      else (let cSquared = js_pow c 2
            in frequencyStep
               + ((((js_pow frequencyStep 2 * cSquared * cSquared) / Fin 20) - cSquared)
                    * js_pow frequencyStep 3)
                 / Fin 6))"

definition Step_y :: "number \<Rightarrow> number \<Rightarrow> number \<Rightarrow> number" where
  "Step_y deltaTime cFrequency j =
     (if cFrequency > EPS then j / cFrequency
      else (let cFrequencySquared = js_pow cFrequency 2
            in deltaTime
               + ((((js_pow deltaTime 2 * cFrequencySquared * cFrequencySquared) / Fin 20)
                     - cFrequencySquared)
                    * js_pow deltaTime 3)
                 / Fin 6))"

text \<open>
  \<open>Step\<close> returns the new position and the spring with \<open>Position\<close> and \<open>Velocity\<close>
  overwritten.
\<close>

definition Step :: "number \<Rightarrow> spring \<Rightarrow> number \<times> spring" where
  "Step deltaTime this =
     (let dampingRatio = DampingRatio this;
          frequency = Frequency this * tau;
          goal = Goal this;
          position = Position this;
          velocity = Velocity this
      in if strict_eq dampingRatio (Fin 1) then
           (let q = Math_exp (- frequency * deltaTime);
                w = deltaTime * q;
                wScaledFrequency = w * frequency;
                c0 = q + wScaledFrequency;
                c2 = q - wScaledFrequency;
                c3 = w * js_pow frequency 2;
                goalDistance = position - goal;
                newPosition = (goalDistance * c0) + (velocity * w) + goal;
                newVelocity = (velocity * c2) - (goalDistance * c3)
            in (newPosition, this\<lparr>Position := newPosition, Velocity := newVelocity\<rparr>))
         else if dampingRatio < Fin 1 then
           (let frequencyStep = frequency * deltaTime;
                q = Math_exp (- dampingRatio * frequencyStep);
                c = Math_sqrt (Fin 1 - js_pow dampingRatio 2);
                cFrequencyStep = c * frequencyStep;
                i = Math_cos cFrequencyStep;
                j = Math_sin cFrequencyStep;
                z = Step_z frequencyStep c j;
                cFrequency = frequency * c;
                y = Step_y deltaTime cFrequency j;
                goalDistance = position - goal;
                newPosition = (((goalDistance * (i + (z * dampingRatio))) + (velocity * y)) * q) + goal;
                newVelocity = ((velocity * (i - (z * dampingRatio))) - (goalDistance * (z * frequency))) * q
            in (newPosition, this\<lparr>Position := newPosition, Velocity := newVelocity\<rparr>))
         else
           (let c = Math_sqrt (js_pow dampingRatio 2 - Fin 1);
                r1 = - frequency * (dampingRatio - c);
                r2 = - frequency * (dampingRatio + c);
                ec1 = Math_exp (r1 * deltaTime);
                ec2 = Math_exp (r2 * deltaTime);
                goalDistance = position - goal;
                co2 = (velocity - (goalDistance * r1)) / (Fin 2 * frequency * c);
                co1 = ec1 * (goalDistance - co2);
                coEc2 = co2 * ec2;
                newPosition = co1 + coEc2 + goal;
                newVelocity = co1 * r1 + (coEc2 * r2)
            in (newPosition, this\<lparr>Position := newPosition, Velocity := newVelocity\<rparr>)))"

definition CanSleep :: "spring \<Rightarrow> bool" where
  "CanSleep this =
     (if js_pow (Velocity this) 2 > SLEEP_VELOCITY_SQ_LIMIT
         \<or> js_pow (Goal this - Position this) 2 > SLEEP_OFFSET_SQ_LIMIT
      then False else True)"

definition GetGoal :: "spring \<Rightarrow> number" where
  "GetGoal this = Goal this"

definition SetGoal :: "number \<Rightarrow> spring \<Rightarrow> spring" where
  "SetGoal goal this = this\<lparr>Goal := goal\<rparr>"

text \<open>
  The two checked setters return the error thrown, if any, and the spring as the call
  leaves it.
\<close>

definition SetDampingRatio :: "number \<Rightarrow> spring \<Rightarrow> error option \<times> spring" where
  "SetDampingRatio dampingRatio this =
     (if times_binary64 (Frequency this) dampingRatio < Fin 0 then (Some not_converge, this)
      else (None, this\<lparr>DampingRatio := dampingRatio\<rparr>))"

definition SetFrequency :: "number \<Rightarrow> spring \<Rightarrow> error option \<times> spring" where
  "SetFrequency frequency this =
     (if times_binary64 frequency (DampingRatio this) < Fin 0 then (Some not_converge, this)
      else (None, this\<lparr>Frequency := frequency\<rparr>))"

section \<open>The product of the convergence check\<close>

lemma round_half_even_neg_iff: "round_half_even x < 0 \<longleftrightarrow> x < - (1 / 2)"
proof -
  define n where "n = \<lfloor>x\<rfloor>"
  have n: "of_int n \<le> x" "x < of_int n + 1" unfolding n_def by linarith+
  show ?thesis
    unfolding round_half_even_def Let_def n_def[symmetric]
    using n by (auto simp: not_less)
qed

lemma times_binary64_neg_iff:
  "times_binary64 (Fin a) (Fin b) < Fin 0 \<longleftrightarrow> a * b < - (1 / 2 ^ 1075)"
proof -
  define r where "r = a * b"
  have small: "(1::real) / 2 ^ 1075 < 1 / 2 ^ 1022" by simp
  have scale: "r * 2 ^ 1074 < - (1 / 2) \<longleftrightarrow> r < - (1 / 2 ^ 1075)"
    by (simp add: field_simps)
  show ?thesis
    unfolding r_def[symmetric] times_binary64.simps Let_def
    using small scale
    by (auto simp: round_half_even_neg_iff abs_if split: if_splits)
qed

lemma times_binary64_neg:
  "times_binary64 f d < Fin 0 \<longleftrightarrow> product_negative f d"
  by (cases f; cases d) (simp_all add: times_binary64_neg_iff del: times_binary64.simps(1))

lemma new_Spring_check:
  "new_Spring startPosition frequency dampingRatio goal =
     (if product_negative frequency dampingRatio then Inl not_converge
      else Inr \<lparr>DampingRatio = dampingRatio, Frequency = frequency,
                Goal = (case goal of None \<Rightarrow> startPosition | Some g \<Rightarrow> g),
                Position = startPosition, Velocity = Fin 0\<rparr>)"
  by (simp add: new_Spring_def times_binary64_neg)

lemma SetDampingRatio_check:
  "SetDampingRatio dampingRatio this =
     (if product_negative (Frequency this) dampingRatio then (Some not_converge, this)
      else (None, this\<lparr>DampingRatio := dampingRatio\<rparr>))"
  by (simp add: SetDampingRatio_def times_binary64_neg)

lemma SetFrequency_check:
  "SetFrequency frequency this =
     (if product_negative frequency (DampingRatio this) then (Some not_converge, this)
      else (None, this\<lparr>Frequency := frequency\<rparr>))"
  by (simp add: SetFrequency_def times_binary64_neg)

section \<open>Sleep thresholds\<close>

text \<open>
  Both thresholds are written with \<open>^\<close>, which is exclusive or on 32-bit integers and
  not a power: \<open>(1/3840)^2\<close> and \<open>1e-2^2\<close> both truncate their left operand to 0 and
  evaluate to \<open>0 XOR 2 = 2\<close>.
\<close>

lemma SLEEP_OFFSET_SQ_LIMIT_eq: "SLEEP_OFFSET_SQ_LIMIT = Fin 2"
  by (simp add: SLEEP_OFFSET_SQ_LIMIT_def bit_xor_def)

lemma SLEEP_VELOCITY_SQ_LIMIT_eq: "SLEEP_VELOCITY_SQ_LIMIT = Fin 2"
  by (simp add: SLEEP_VELOCITY_SQ_LIMIT_def bit_xor_def)

lemma CanSleep_finite:
  "CanSleep \<lparr>DampingRatio = d, Frequency = f, Goal = Fin g, Position = Fin p, Velocity = Fin v\<rparr>
     \<longleftrightarrow> v\<^sup>2 \<le> 2 \<and> (g - p)\<^sup>2 \<le> 2"
  by (auto simp add: CanSleep_def SLEEP_OFFSET_SQ_LIMIT_eq SLEEP_VELOCITY_SQ_LIMIT_eq)

text \<open>
  C1. The claim is that \<open>CanSleep\<close> holds exactly when the squared velocity is at most
  \<open>1e-4\<close> and the squared offset at most \<open>(1/3840)\<^sup>2\<close>. The code evaluated on a spring one
  unit away from its goal and moving at one unit per second: it may sleep, although
  \<open>1\<^sup>2\<close> exceeds both limits of the claim.
\<close>

theorem CanSleep_moving_spring:
  "CanSleep \<lparr>DampingRatio = Fin 1, Frequency = Fin 4, Goal = Fin 0, Position = Fin 1,
       Velocity = Fin 1\<rparr> = True
   \<and> \<not> ((1::real)\<^sup>2 \<le> 1 / 10000) \<and> \<not> (((0::real) - 1)\<^sup>2 \<le> (1 / 3840)\<^sup>2)"
  by (simp add: CanSleep_finite power2_eq_square)

section \<open>Frame of \<open>Step\<close>\<close>

text \<open>
  C8. \<open>Step\<close> writes \<open>Position\<close> and \<open>Velocity\<close> only: for every spring and every
  \<open>deltaTime\<close>, \<open>Frequency\<close>, \<open>DampingRatio\<close> and \<open>Goal\<close> are after the call what they
  were before it.
\<close>

theorem Step_frame:
  "Frequency (snd (Step deltaTime this)) = Frequency this
   \<and> DampingRatio (snd (Step deltaTime this)) = DampingRatio this
   \<and> Goal (snd (Step deltaTime this)) = Goal this"
  by (simp add: Step_def Let_def)

section \<open>\<open>Step\<close> on finite fields\<close>

text \<open>
  On a spring whose fields are real numbers, each branch of \<open>Step\<close> is a formula of real
  arithmetic, as long as no divisor is zero and no square root is taken of a negative
  number.
\<close>

lemma tau_eq: "tau = Fin (pi * 2)"
  by (simp add: tau_def)

lemma sq_le_1: "- 1 \<le> d \<Longrightarrow> d < 1 \<Longrightarrow> 0 \<le> 1 - (d::real)\<^sup>2"
  by (simp add: abs_square_le_1 abs_le_iff)

lemma sq_gt_1: "1 < d \<Longrightarrow> 0 < (d::real)\<^sup>2 - 1"
  by (simp add: power2_eq_square) (metis less_1_mult)

lemma Step_z_real:
  "Step_z (Fin a) (Fin c) (Fin j) =
     Fin (if c > 1 / 100000 then j / c else a + (((a\<^sup>2 * c ^ 4) / 20 - c\<^sup>2) * a ^ 3) / 6)"
  by (simp add: Step_z_def EPS_def Let_def power2_eq_square power4_eq_xxxx)

lemma Step_y_real:
  "Step_y (Fin dt) (Fin fc) (Fin j) =
     Fin (if fc > 1 / 100000 then j / fc
          else dt + (((dt\<^sup>2 * fc ^ 4) / 20 - fc\<^sup>2) * dt ^ 3) / 6)"
  by (simp add: Step_y_def EPS_def Let_def power2_eq_square power4_eq_xxxx)

text \<open>When \<open>c\<close> or \<open>cFrequency\<close> is \<open>NaN\<close> the test fails and the series gives \<open>NaN\<close>.\<close>

lemma Step_z_not_finite: "Step_z a NonFinite j = NonFinite"
  by (cases a) (simp_all add: Step_z_def EPS_def Let_def)

lemma Step_y_not_finite: "Step_y dt NonFinite j = NonFinite"
  by (cases dt) (simp_all add: Step_y_def EPS_def Let_def)

lemma Step_critical_real:
  "Step (Fin dt)
     \<lparr>DampingRatio = Fin 1, Frequency = Fin fr, Goal = Fin g, Position = Fin p, Velocity = Fin v\<rparr> =
    (let f = fr * (pi * 2);
         q = exp (- f * dt);
         w = dt * q;
         newPosition = (p - g) * (q + w * f) + v * w + g;
         newVelocity = v * (q - w * f) - (p - g) * (w * f\<^sup>2)
     in (Fin newPosition,
         \<lparr>DampingRatio = Fin 1, Frequency = Fin fr, Goal = Fin g,
            Position = Fin newPosition, Velocity = Fin newVelocity\<rparr>))"
  by (simp add: Step_def Let_def tau_eq)

lemma Step_underdamped_real:
  assumes "- 1 \<le> d" "d < 1"
  shows "Step (Fin dt)
     \<lparr>DampingRatio = Fin d, Frequency = Fin fr, Goal = Fin g, Position = Fin p, Velocity = Fin v\<rparr> =
    (let f = fr * (pi * 2);
         a = f * dt;
         c = sqrt (1 - d\<^sup>2);
         q = exp (- d * a);
         i = cos (c * a);
         z = (if c > 1 / 100000 then sin (c * a) / c
              else a + (((a\<^sup>2 * c ^ 4) / 20 - c\<^sup>2) * a ^ 3) / 6);
         y = (if f * c > 1 / 100000 then sin (c * a) / (f * c)
              else dt + (((dt\<^sup>2 * (f * c) ^ 4) / 20 - (f * c)\<^sup>2) * dt ^ 3) / 6);
         newPosition = ((p - g) * (i + z * d) + v * y) * q + g;
         newVelocity = (v * (i - z * d) - (p - g) * (z * f)) * q
     in (Fin newPosition,
         \<lparr>DampingRatio = Fin d, Frequency = Fin fr, Goal = Fin g,
            Position = Fin newPosition, Velocity = Fin newVelocity\<rparr>))"
proof -
  have nn: "\<not> 1 - d\<^sup>2 < 0" using sq_le_1[OF assms] by simp
  show ?thesis
    using assms(2) nn
    by (simp add: Step_def Let_def tau_eq Step_z_real Step_y_real)
qed

lemma Step_overdamped_real:
  assumes "1 < d" "fr \<noteq> 0"
  shows "Step (Fin dt)
     \<lparr>DampingRatio = Fin d, Frequency = Fin fr, Goal = Fin g, Position = Fin p, Velocity = Fin v\<rparr> =
    (let f = fr * (pi * 2);
         c = sqrt (d\<^sup>2 - 1);
         r1 = - f * (d - c);
         r2 = - f * (d + c);
         ec1 = exp (r1 * dt);
         ec2 = exp (r2 * dt);
         co2 = (v - (p - g) * r1) / (2 * f * c);
         co1 = ec1 * ((p - g) - co2);
         coEc2 = co2 * ec2;
         newPosition = co1 + coEc2 + g;
         newVelocity = co1 * r1 + coEc2 * r2
     in (Fin newPosition,
         \<lparr>DampingRatio = Fin d, Frequency = Fin fr, Goal = Fin g,
            Position = Fin newPosition, Velocity = Fin newVelocity\<rparr>))"
proof -
  have pos: "0 < d\<^sup>2 - 1" using sq_gt_1[OF assms(1)] .
  have d1: "(d = 1) = False" "(d < 1) = False" using assms by simp_all
  have nn: "(d\<^sup>2 - 1 < 0) = False" using pos by simp
  have dn: "(2 * (fr * (pi * 2)) * sqrt (d\<^sup>2 - 1) = 0) = False" using pos assms(2) by simp
  show ?thesis
    by (simp only: Step_def Let_def tau_eq spring.simps strict_eq.simps less_number.simps
        plus_number.simps minus_number.simps times_number.simps uminus_number.simps
        divide_number.simps js_pow.simps Math_exp.simps Math_sqrt.simps d1 nn dn if_False)
qed

text \<open>
  The two ways out of real arithmetic. An overdamped spring of frequency 0 divides by
  \<open>2 * frequency * c = 0\<close>; a damping ratio below \<open>-1\<close> (admitted with a negative
  frequency) enters the underdamped branch and takes the square root of \<open>1 - d\<^sup>2 < 0\<close>.
\<close>

lemma Step_overdamped_zero_frequency:
  assumes "1 < d"
  shows "Step (Fin dt)
     \<lparr>DampingRatio = Fin d, Frequency = Fin 0, Goal = Fin g, Position = Fin p, Velocity = Fin v\<rparr> =
     (NonFinite,
      \<lparr>DampingRatio = Fin d, Frequency = Fin 0, Goal = Fin g,
         Position = NonFinite, Velocity = NonFinite\<rparr>)"
proof -
  have pos: "0 < d\<^sup>2 - 1" using sq_gt_1[OF assms(1)] .
  then have nn: "\<not> d\<^sup>2 - 1 < 0" by simp
  show ?thesis
    using assms nn
    by (simp add: Step_def Let_def tau_eq)
qed

lemma Step_negative_damping:
  assumes "d < - 1"
  shows "Step (Fin dt)
     \<lparr>DampingRatio = Fin d, Frequency = Fin fr, Goal = Fin g, Position = Fin p, Velocity = Fin v\<rparr> =
     (NonFinite,
      \<lparr>DampingRatio = Fin d, Frequency = Fin fr, Goal = Fin g,
         Position = NonFinite, Velocity = NonFinite\<rparr>)"
proof -
  have "1 < (- d)\<^sup>2" using assms sq_gt_1[of "- d"] by simp
  then have neg: "1 - d\<^sup>2 < 0" by simp
  show ?thesis
    using assms neg
    by (simp add: Step_def Let_def tau_eq Step_z_def Step_y_def)
qed

section \<open>The critically damped branch\<close>



section \<open>The underdamped branch\<close>



section \<open>Finite results, equilibrium and the zero step\<close>

text \<open>
  What holds in exact arithmetic on every spring with finite fields whose damping ratio
  is at least \<open>-1\<close> and whose frequency is not 0 when it is overdamped: the results of
  \<open>Step\<close> are real numbers, and a spring at rest at its goal stays there. The lemmas of
  this section say nothing of the overflow of \<open>exp\<close> and of the cancellation of binary64
  arithmetic.
\<close>

lemma Step_finite:
  assumes "- 1 \<le> d" "d \<le> 1 \<or> fr \<noteq> 0"
  shows "is_finite (fst (Step (Fin dt)
            \<lparr>DampingRatio = Fin d, Frequency = Fin fr, Goal = Fin g, Position = Fin p,
               Velocity = Fin v\<rparr>))
     \<and> is_finite (Position (snd (Step (Fin dt)
            \<lparr>DampingRatio = Fin d, Frequency = Fin fr, Goal = Fin g, Position = Fin p,
               Velocity = Fin v\<rparr>)))
     \<and> is_finite (Velocity (snd (Step (Fin dt)
            \<lparr>DampingRatio = Fin d, Frequency = Fin fr, Goal = Fin g, Position = Fin p,
               Velocity = Fin v\<rparr>)))"
proof -
  consider "d = 1" | "d < 1" | "1 < d" by linarith
  then show ?thesis
  proof cases
    case 1
    then show ?thesis by (simp add: Step_critical_real Let_def)
  next
    case 2
    then show ?thesis using assms(1) by (simp add: Step_underdamped_real Let_def)
  next
    case 3
    then have "fr \<noteq> 0" using assms(2) by simp
    then show ?thesis using 3 by (simp add: Step_overdamped_real Let_def)
  qed
qed

lemma Step_equilibrium:
  assumes "- 1 \<le> d" "d \<le> 1 \<or> fr \<noteq> 0"
  shows "Step (Fin dt)
      \<lparr>DampingRatio = Fin d, Frequency = Fin fr, Goal = Fin g, Position = Fin g, Velocity = Fin 0\<rparr>
     = (Fin g,
        \<lparr>DampingRatio = Fin d, Frequency = Fin fr, Goal = Fin g, Position = Fin g,
           Velocity = Fin 0\<rparr>)"
proof -
  consider "d = 1" | "d < 1" | "1 < d" by linarith
  then show ?thesis
  proof cases
    case 1
    then show ?thesis by (simp add: Step_critical_real Let_def)
  next
    case 2
    then show ?thesis using assms(1) by (simp add: Step_underdamped_real Let_def)
  next
    case 3
    then have "fr \<noteq> 0" using assms(2) by simp
    then show ?thesis using 3 by (simp add: Step_overdamped_real Let_def)
  qed
qed

text \<open>
  In exact arithmetic a step of no time leaves position and velocity as they are in the
  critically damped and underdamped branches. In the overdamped branch it keeps the position and replaces
  the velocity \<open>v\<close> by \<open>2 * (position - goal) * r1 - v\<close>: with \<open>r1 = - f * (d - c)\<close> and
  \<open>r2 = - f * (d + c)\<close> the initial conditions give the coefficient
  \<open>(v - (position - goal) * r1) / (r2 - r1)\<close> of \<open>exp (r2 * t)\<close>, and \<open>r2 - r1\<close> is
  \<open>- 2 * f * c\<close>, the opposite of the divisor of \<open>co2\<close>.
\<close>

lemma Step_zero:
  assumes "- 1 \<le> d" "d \<le> 1"
  shows "Step (Fin 0)
      \<lparr>DampingRatio = Fin d, Frequency = Fin fr, Goal = Fin g, Position = Fin p, Velocity = Fin v\<rparr>
     = (Fin p,
        \<lparr>DampingRatio = Fin d, Frequency = Fin fr, Goal = Fin g, Position = Fin p,
           Velocity = Fin v\<rparr>)"
proof (cases "d = 1")
  case True
  then show ?thesis by (simp add: Step_critical_real Let_def)
next
  case False
  then have "d < 1" using assms(2) by simp
  then show ?thesis using assms(1) by (simp add: Step_underdamped_real Let_def)
qed

lemma Step_zero_overdamped:
  assumes "1 < d" "fr \<noteq> 0"
  shows "Step (Fin 0)
      \<lparr>DampingRatio = Fin d, Frequency = Fin fr, Goal = Fin g, Position = Fin p, Velocity = Fin v\<rparr>
     = (Fin p,
        \<lparr>DampingRatio = Fin d, Frequency = Fin fr, Goal = Fin g, Position = Fin p,
           Velocity = Fin (2 * (p - g) * (- (fr * (pi * 2)) * (d - sqrt (d\<^sup>2 - 1))) - v)\<rparr>)"
proof -
  have pos: "0 < d\<^sup>2 - 1" using sq_gt_1[OF assms(1)] .
  then have c: "sqrt (d\<^sup>2 - 1) \<noteq> 0" by simp
  show ?thesis using assms c
    by (simp add: Step_overdamped_real Let_def) (simp add: field_simps)
qed

text \<open>
  C2. The claim is that \<open>Step\<close> gives a finite position and velocity on every finite
  state with \<open>frequency * dampingRatio \<ge> 0\<close>. The code evaluated on the spring that the
  constructor builds from start position 0, frequency 0, damping ratio 2 and goal 1
  (the product is 0, the constructor accepts it), stepped by 1/60: neither the position
  nor the velocity is finite.
\<close>

theorem Step_not_finite_at_zero_frequency:
  "new_Spring (Fin 0) (Fin 0) (Fin 2) (Some (Fin 1))
     = Inr \<lparr>DampingRatio = Fin 2, Frequency = Fin 0, Goal = Fin 1, Position = Fin 0,
             Velocity = Fin 0\<rparr>
   \<and> \<not> is_finite (fst (Step (Fin (1 / 60))
          \<lparr>DampingRatio = Fin 2, Frequency = Fin 0, Goal = Fin 1, Position = Fin 0,
             Velocity = Fin 0\<rparr>))
   \<and> \<not> is_finite (Velocity (snd (Step (Fin (1 / 60))
          \<lparr>DampingRatio = Fin 2, Frequency = Fin 0, Goal = Fin 1, Position = Fin 0,
             Velocity = Fin 0\<rparr>)))"
  by (simp add: new_Spring_check Step_overdamped_zero_frequency)

text \<open>
  C4. The claim is that a valid spring at rest at its goal stays there under \<open>Step\<close> for
  every \<open>deltaTime \<ge> 0\<close>. The code evaluated on the spring that the constructor builds
  from start position 5, frequency 0 and damping ratio 2, with the goal left to default
  to the start position, stepped by 1: \<open>Step\<close> returns a value that is not finite, not
  the goal 5, and leaves position and velocity not finite.
\<close>

theorem Step_leaves_equilibrium_at_zero_frequency:
  "new_Spring (Fin 5) (Fin 0) (Fin 2) None
     = Inr \<lparr>DampingRatio = Fin 2, Frequency = Fin 0, Goal = Fin 5, Position = Fin 5,
             Velocity = Fin 0\<rparr>
   \<and> Step (Fin 1)
        \<lparr>DampingRatio = Fin 2, Frequency = Fin 0, Goal = Fin 5, Position = Fin 5,
           Velocity = Fin 0\<rparr>
     = (NonFinite,
        \<lparr>DampingRatio = Fin 2, Frequency = Fin 0, Goal = Fin 5, Position = NonFinite,
           Velocity = NonFinite\<rparr>)"
  by (simp add: new_Spring_check Step_overdamped_zero_frequency)

text \<open>
  C5. The claim is that \<open>Step\<close> of 0 leaves position and velocity unchanged in all three
  regimes. The code evaluated on an overdamped spring (frequency 1, damping ratio 2) at
  its goal 0 with velocity 1: the step of no time keeps the position and turns the
  velocity into \<open>-1\<close>.
\<close>

theorem Step_zero_reverses_overdamped_velocity:
  "Step (Fin 0)
     \<lparr>DampingRatio = Fin 2, Frequency = Fin 1, Goal = Fin 0, Position = Fin 0, Velocity = Fin 1\<rparr>
   = (Fin 0,
      \<lparr>DampingRatio = Fin 2, Frequency = Fin 1, Goal = Fin 0, Position = Fin 0,
         Velocity = Fin (- 1)\<rparr>)"
  by (simp add: Step_zero_overdamped)

section \<open>The convergence check\<close>

text \<open>
  The claim that the constructor and the two setters throw exactly when the product of
  the pair is below 0 fails where the binary64 product underflows: the real product of
  \<open>2 ^ -600\<close> and \<open>- 2 ^ -600\<close> is below 0, its binary64 product is a zero, and the
  constructor builds the spring and \<open>SetDampingRatio\<close> stores the damping ratio.
\<close>

theorem convergence_check_underflow:
  "new_Spring (Fin 0) (Fin (1 / 2 ^ 600)) (Fin (- (1 / 2 ^ 600))) None
     = Inr \<lparr>DampingRatio = Fin (- (1 / 2 ^ 600)), Frequency = Fin (1 / 2 ^ 600),
             Goal = Fin 0, Position = Fin 0, Velocity = Fin 0\<rparr>
   \<and> SetDampingRatio (Fin (- (1 / 2 ^ 600)))
        \<lparr>DampingRatio = Fin 1, Frequency = Fin (1 / 2 ^ 600), Goal = Fin 0, Position = Fin 0,
           Velocity = Fin 0\<rparr>
     = (None,
        \<lparr>DampingRatio = Fin (- (1 / 2 ^ 600)), Frequency = Fin (1 / 2 ^ 600), Goal = Fin 0,
           Position = Fin 0, Velocity = Fin 0\<rparr>)
   \<and> (1 / 2 ^ 600) * (- (1 / 2 ^ 600)) < (0::real)"
  by (simp add: new_Spring_check SetDampingRatio_check)

text \<open>
  C3. For every pair of a frequency and a damping ratio, finite or not: the constructor
  called with the pair, \<open>SetDampingRatio\<close> on a spring of that frequency and
  \<open>SetFrequency\<close> on a spring of that damping ratio throw the error "Spring will not
  converge" exactly when the binary64 product of the pair is below 0 (for two finite
  numbers, when their real product is below \<open>- 2 ^ -1075\<close>; for an infinity, when the
  other number is of the opposite sign and not zero), and otherwise succeed and store
  the pair; they succeed in particular for every pair whose product is at least 0.
\<close>

theorem convergence_check:
  "new_Spring startPosition frequency dampingRatio goal =
     (if product_negative frequency dampingRatio then Inl not_converge
      else Inr \<lparr>DampingRatio = dampingRatio, Frequency = frequency,
                Goal = (case goal of None \<Rightarrow> startPosition | Some g \<Rightarrow> g),
                Position = startPosition, Velocity = Fin 0\<rparr>)
   \<and> SetDampingRatio dampingRatio this =
     (if product_negative (Frequency this) dampingRatio then (Some not_converge, this)
      else (None, this\<lparr>DampingRatio := dampingRatio\<rparr>))
   \<and> SetFrequency frequency this =
     (if product_negative frequency (DampingRatio this) then (Some not_converge, this)
      else (None, this\<lparr>Frequency := frequency\<rparr>))"
  by (simp add: new_Spring_check SetDampingRatio_check SetFrequency_check)

text \<open>On finite pairs, in real arithmetic.\<close>

lemma convergence_check_finite:
  "new_Spring startPosition (Fin f) (Fin d) goal =
     (if f * d < - (1 / 2 ^ 1075) then Inl not_converge
      else Inr \<lparr>DampingRatio = Fin d, Frequency = Fin f,
                Goal = (case goal of None \<Rightarrow> startPosition | Some g \<Rightarrow> g),
                Position = startPosition, Velocity = Fin 0\<rparr>)"
  "0 \<le> f * d \<Longrightarrow> \<exists>s. new_Spring startPosition (Fin f) (Fin d) goal = Inr s"
  by (simp_all add: new_Spring_check)

text \<open>
  C10. Whenever \<open>SetDampingRatio\<close> or \<open>SetFrequency\<close> throws, the spring is as it was
  before the call, in every field.
\<close>

theorem setters_atomic_on_failure:
  "(fst (SetDampingRatio dampingRatio this) \<noteq> None
      \<longrightarrow> snd (SetDampingRatio dampingRatio this) = this)
   \<and> (fst (SetFrequency frequency this) \<noteq> None
      \<longrightarrow> snd (SetFrequency frequency this) = this)"
  by (simp add: SetDampingRatio_def SetFrequency_def)

theorem setters_atomic_on_failure_witness:
  "fst (SetDampingRatio (Fin (- 1))
      \<lparr>DampingRatio = Fin 1, Frequency = Fin 4, Goal = Fin 0, Position = Fin 10, Velocity = Fin 3\<rparr>)
     = Some not_converge
   \<and> snd (SetDampingRatio (Fin (- 1))
      \<lparr>DampingRatio = Fin 1, Frequency = Fin 4, Goal = Fin 0, Position = Fin 10, Velocity = Fin 3\<rparr>)
     = \<lparr>DampingRatio = Fin 1, Frequency = Fin 4, Goal = Fin 0, Position = Fin 10, Velocity = Fin 3\<rparr>
   \<and> fst (SetFrequency (Fin (- 4))
      \<lparr>DampingRatio = Fin 1, Frequency = Fin 4, Goal = Fin 0, Position = Fin 10, Velocity = Fin 3\<rparr>)
     = Some not_converge
   \<and> snd (SetFrequency (Fin (- 4))
      \<lparr>DampingRatio = Fin 1, Frequency = Fin 4, Goal = Fin 0, Position = Fin 10, Velocity = Fin 3\<rparr>)
     = \<lparr>DampingRatio = Fin 1, Frequency = Fin 4, Goal = Fin 0, Position = Fin 10, Velocity = Fin 3\<rparr>"
proof -
  let ?s = "\<lparr>DampingRatio = Fin 1, Frequency = Fin 4, Goal = Fin 0, Position = Fin 10,
              Velocity = Fin 3\<rparr>"
  have d: "fst (SetDampingRatio (Fin (- 1)) ?s) = Some not_converge"
    by (simp add: SetDampingRatio_def)
  have f: "fst (SetFrequency (Fin (- 4)) ?s) = Some not_converge"
    by (simp add: SetFrequency_def)
  show ?thesis
    using setters_atomic_on_failure[of "Fin (- 1)" ?s "Fin (- 4)"] d f by simp
qed

end
